theory Spec2Isabelle
  imports Complex_Main "HOL-Library.AList"
begin

section \<open>Enumerations and dates\<close>

text \<open>
  The three \<^verbatim>\<open>Enum\<close> classes of \<^verbatim>\<open>grand_prix_classes.py\<close> (lines 11-29); the GUI file
  \<^verbatim>\<open>grand_prix_admin_gui.py\<close> declares the same three (lines 15-30).
\<close>

datatype RaceCategory = PREMIUM | STANDARD | ECONOMY

datatype OrderStatus = PENDING | CONFIRMED | CANCELLED

datatype PaymentMethod = CREDIT_CARD | DEBIT_CARD | DIGITAL_WALLET

text \<open>
  A \<^verbatim>\<open>datetime.date\<close> is a year, a month and a day; Python orders dates as it orders the
  triples \<^verbatim>\<open>(year, month, day)\<close>.
\<close>

datatype date = Date (year: int) (month: nat) (day: nat)

fun date_less :: "date \<Rightarrow> date \<Rightarrow> bool" where
  "date_less (Date y1 m1 d1) (Date y2 m2 d2) =
     (y1 < y2 \<or> (y1 = y2 \<and> (m1 < m2 \<or> (m1 = m2 \<and> d1 < d2))))"

datatype error = ValueError string

section \<open>Tickets (grand\_prix\_classes.py)\<close>

text \<open>
  The private attributes of the abstract class \<^verbatim>\<open>Ticket\<close> (lines 35-42). Prices are Python
  floats; they are modelled as real numbers, so \<^verbatim>\<open>base_price * 1.2\<close> is the exact product.
  The creator is a reference to an \<^verbatim>\<open>Admin\<close> object, kept here as that admin's username.
\<close>

record ticket_base =
  ticket_id :: string
  price :: real
  event_date :: date
  venue_section :: string
  used :: bool
  created_by :: "string option"

text \<open>
  \<^verbatim>\<open>Ticket\<close> is abstract in this file, so a ticket is an instance of one of its two
  concrete subclasses.
\<close>

datatype ticket =
    SingleRaceTicket ticket_base string RaceCategory
  | SeasonTicket ticket_base int "string list" "date list"

definition Ticket_init :: "string \<Rightarrow> real \<Rightarrow> date \<Rightarrow> string \<Rightarrow> ticket_base" where
  "Ticket_init tid p d v =
     \<lparr>ticket_id = tid, price = p, event_date = d, venue_section = v,
      used = False, created_by = None\<rparr>"

definition SingleRaceTicket_init ::
  "string \<Rightarrow> real \<Rightarrow> date \<Rightarrow> string \<Rightarrow> string \<Rightarrow> RaceCategory \<Rightarrow> ticket" where
  "SingleRaceTicket_init tid p d v rname cat = SingleRaceTicket (Ticket_init tid p d v) rname cat"

definition SeasonTicket_init ::
  "string \<Rightarrow> real \<Rightarrow> date \<Rightarrow> string \<Rightarrow> int \<Rightarrow> string list \<Rightarrow> date list option \<Rightarrow> ticket" where
  "SeasonTicket_init tid p d v yr races dates =
     SeasonTicket (Ticket_init tid p d v) yr races
       (case dates of None \<Rightarrow> [] | Some ds \<Rightarrow> ds)"

fun base :: "ticket \<Rightarrow> ticket_base" where
  "base (SingleRaceTicket b rname cat) = b"
| "base (SeasonTicket b yr races dates) = b"

fun with_base :: "ticket \<Rightarrow> ticket_base \<Rightarrow> ticket" where
  "with_base (SingleRaceTicket b rname cat) b' = SingleRaceTicket b' rname cat"
| "with_base (SeasonTicket b yr races dates) b' = SeasonTicket b' yr races dates"

definition get_ticket_id :: "ticket \<Rightarrow> string" where
  "get_ticket_id t = ticket_id (base t)"

definition get_price :: "ticket \<Rightarrow> real" where
  "get_price t = price (base t)"

definition set_price :: "ticket \<Rightarrow> real \<Rightarrow> error + ticket" where
  "set_price t p =
     (if p < 0 then Inl (ValueError ''Price cannot be negative'')
      else Inr (with_base t ((base t)\<lparr>price := p\<rparr>)))"

definition get_event_date :: "ticket \<Rightarrow> date" where
  "get_event_date t = event_date (base t)"

definition is_used :: "ticket \<Rightarrow> bool" where
  "is_used t = used (base t)"

definition set_used :: "ticket \<Rightarrow> bool \<Rightarrow> ticket" where
  "set_used t u = with_base t ((base t)\<lparr>used := u\<rparr>)"

definition set_created_by :: "ticket \<Rightarrow> string option \<Rightarrow> ticket" where
  "set_created_by t a = with_base t ((base t)\<lparr>created_by := a\<rparr>)"

text \<open>\<^verbatim>\<open>SingleRaceTicket.calculate_price\<close> (lines 121-129) and
  \<^verbatim>\<open>SeasonTicket.calculate_price\<close> (lines 168-181).\<close>

fun calculate_price :: "ticket \<Rightarrow> real" where
  "calculate_price (SingleRaceTicket b rname cat) =
     (let base_price = price b in
      if cat = PREMIUM then base_price * 1.2
      else if cat = STANDARD then base_price
      else base_price * 0.9)"
| "calculate_price (SeasonTicket b yr races dates) =
     (let base_price = price b; num_races = length races in
      if num_races \<ge> 15 then base_price * 0.7
      else if num_races \<ge> 10 then base_price * 0.8
      else if num_races \<ge> 5 then base_price * 0.9
      else base_price)"

section \<open>Orders (grand\_prix\_classes.py)\<close>

text \<open>
  The private attributes of \<^verbatim>\<open>Order\<close> (lines 322-331). The ticket list holds references
  to ticket objects; the record holds the state those tickets have when an operation
  runs. The record is polymorphic in the ticket type because the GUI file has a ticket
  hierarchy of its own.
\<close>

record 't order_rec =
  order_id :: string
  order_date :: date
  status :: OrderStatus
  total_amount :: real
  payment_method :: "PaymentMethod option"
  tickets :: "'t list"
  order_user_id :: "string option"

definition Order_init ::
  "string \<Rightarrow> date \<Rightarrow> OrderStatus \<Rightarrow> real \<Rightarrow> PaymentMethod option \<Rightarrow> 't order_rec" where
  "Order_init oid d st amount pm =
     \<lparr>order_id = oid, order_date = d, status = st, total_amount = amount,
      payment_method = pm, tickets = [], order_user_id = None\<rparr>"

text \<open>The constructor's defaults: \<^verbatim>\<open>Order(order_id, order_date)\<close>.\<close>

definition Order_new :: "string \<Rightarrow> date \<Rightarrow> 't order_rec" where
  "Order_new oid d = Order_init oid d PENDING 0 None"

definition set_total_amount :: "'t order_rec \<Rightarrow> real \<Rightarrow> error + 't order_rec" where
  "set_total_amount ord amount =
     (if amount < 0 then Inl (ValueError ''Total amount cannot be negative'')
      else Inr (ord\<lparr>total_amount := amount\<rparr>))"

definition set_payment_method :: "'t order_rec \<Rightarrow> PaymentMethod option \<Rightarrow> 't order_rec" where
  "set_payment_method ord pm = ord\<lparr>payment_method := pm\<rparr>"

text \<open>
  \<^verbatim>\<open>calculate_total\<close> (lines 404-408): Python's \<^verbatim>\<open>sum\<close> starts from 0 and adds the
  prices from left to right.
\<close>

definition calculate_total :: "ticket order_rec \<Rightarrow> real" where
  "calculate_total ord = foldl (+) 0 (map calculate_price (tickets ord))"

text \<open>\<^verbatim>\<open>add_ticket\<close> (lines 374-382): raises on a confirmed order.\<close>

definition add_ticket :: "ticket order_rec \<Rightarrow> ticket \<Rightarrow> error + ticket order_rec" where
  "add_ticket ord t =
     (if status ord = CONFIRMED then Inl (ValueError ''Cannot add tickets to a confirmed order'')
      else let ord' = ord\<lparr>tickets := tickets ord @ [t]\<rparr>
           in Inr (ord'\<lparr>total_amount := calculate_total ord'\<rparr>))"

text \<open>
  The loop of \<^verbatim>\<open>remove_ticket\<close> (lines 391-395): the first ticket with the given id is
  popped; \<open>None\<close> when the loop ends without a match.
\<close>

fun pop_ticket :: "string \<Rightarrow> ticket list \<Rightarrow> ticket list option" where
  "pop_ticket tid [] = None"
| "pop_ticket tid (t # ts) =
     (if get_ticket_id t = tid then Some ts
      else case pop_ticket tid ts of None \<Rightarrow> None | Some ts' \<Rightarrow> Some (t # ts'))"

definition remove_ticket :: "ticket order_rec \<Rightarrow> string \<Rightarrow> bool \<times> ticket order_rec" where
  "remove_ticket ord tid =
     (if status ord = CONFIRMED then (False, ord)
      else case pop_ticket tid (tickets ord) of
             None \<Rightarrow> (False, ord)
           | Some ts \<Rightarrow>
               (let ord' = ord\<lparr>tickets := ts\<rparr>
                in (True, ord'\<lparr>total_amount := calculate_total ord'\<rparr>)))"

text \<open>\<^verbatim>\<open>confirm_order\<close> (lines 410-422).\<close>

definition confirm_order :: "ticket order_rec \<Rightarrow> bool \<times> ticket order_rec" where
  "confirm_order ord =
     (if tickets ord = [] then (False, ord)
      else if payment_method ord = None then (False, ord)
      else (True, ord\<lparr>status := CONFIRMED\<rparr>))"

text \<open>
  The two loops of \<^verbatim>\<open>cancel_order\<close> (lines 427-435), and the method itself; the value of
  \<^verbatim>\<open>date.today()\<close> is an argument.
\<close>

fun any_used :: "ticket list \<Rightarrow> bool" where
  "any_used [] = False"
| "any_used (t # ts) = (if is_used t then True else any_used ts)"

fun any_passed :: "date \<Rightarrow> ticket list \<Rightarrow> bool" where
  "any_passed today [] = False"
| "any_passed today (t # ts) =
     (if date_less (get_event_date t) today then True else any_passed today ts)"

definition cancel_order :: "date \<Rightarrow> ticket order_rec \<Rightarrow> bool \<times> ticket order_rec" where
  "cancel_order today ord =
     (if any_used (tickets ord) then (False, ord)
      else if any_passed today (tickets ord) then (False, ord)
      else (True, ord\<lparr>status := CANCELLED\<rparr>))"

section \<open>Tickets and orders of the GUI copy (grand\_prix\_admin\_gui.py)\<close>

text \<open>
  The GUI file repeats the domain classes. Its \<^verbatim>\<open>Ticket\<close> (lines 34-87) is a concrete
  class whose \<^verbatim>\<open>calculate_price\<close> returns the stored price, so a GUI ticket is an instance
  of the base class or of one of the two subclasses.
\<close>

datatype gui_ticket =
    gui_Ticket ticket_base
  | gui_SingleRaceTicket ticket_base string RaceCategory
  | gui_SeasonTicket ticket_base int "string list" "date list"

fun gui_base :: "gui_ticket \<Rightarrow> ticket_base" where
  "gui_base (gui_Ticket b) = b"
| "gui_base (gui_SingleRaceTicket b rname cat) = b"
| "gui_base (gui_SeasonTicket b yr races dates) = b"

definition gui_get_ticket_id :: "gui_ticket \<Rightarrow> string" where
  "gui_get_ticket_id t = ticket_id (gui_base t)"

definition gui_get_event_date :: "gui_ticket \<Rightarrow> date" where
  "gui_get_event_date t = event_date (gui_base t)"

definition gui_is_used :: "gui_ticket \<Rightarrow> bool" where
  "gui_is_used t = used (gui_base t)"

text \<open>\<^verbatim>\<open>calculate_price\<close> of the three GUI classes (lines 82-84, 111-119, 154-166).\<close>

fun gui_calculate_price :: "gui_ticket \<Rightarrow> real" where
  "gui_calculate_price (gui_Ticket b) = price b"
| "gui_calculate_price (gui_SingleRaceTicket b rname cat) =
     (let base_price = price b in
      if cat = PREMIUM then base_price * 1.2
      else if cat = STANDARD then base_price
      else base_price * 0.9)"
| "gui_calculate_price (gui_SeasonTicket b yr races dates) =
     (let base_price = price b; num_races = length races in
      if num_races \<ge> 15 then base_price * 0.7
      else if num_races \<ge> 10 then base_price * 0.8
      else if num_races \<ge> 5 then base_price * 0.9
      else base_price)"

text \<open>The methods of the GUI's \<^verbatim>\<open>Order\<close> (lines 338-392).\<close>

definition gui_calculate_total :: "gui_ticket order_rec \<Rightarrow> real" where
  "gui_calculate_total ord = foldl (+) 0 (map gui_calculate_price (tickets ord))"

definition gui_add_ticket ::
  "gui_ticket order_rec \<Rightarrow> gui_ticket \<Rightarrow> error + gui_ticket order_rec" where
  "gui_add_ticket ord t =
     (if status ord = CONFIRMED then Inl (ValueError ''Cannot add tickets to a confirmed order'')
      else let ord' = ord\<lparr>tickets := tickets ord @ [t]\<rparr>
           in Inr (ord'\<lparr>total_amount := gui_calculate_total ord'\<rparr>))"

fun gui_pop_ticket :: "string \<Rightarrow> gui_ticket list \<Rightarrow> gui_ticket list option" where
  "gui_pop_ticket tid [] = None"
| "gui_pop_ticket tid (t # ts) =
     (if gui_get_ticket_id t = tid then Some ts
      else case gui_pop_ticket tid ts of None \<Rightarrow> None | Some ts' \<Rightarrow> Some (t # ts'))"

definition gui_remove_ticket ::
  "gui_ticket order_rec \<Rightarrow> string \<Rightarrow> bool \<times> gui_ticket order_rec" where
  "gui_remove_ticket ord tid =
     (if status ord = CONFIRMED then (False, ord)
      else case gui_pop_ticket tid (tickets ord) of
             None \<Rightarrow> (False, ord)
           | Some ts \<Rightarrow>
               (let ord' = ord\<lparr>tickets := ts\<rparr>
                in (True, ord'\<lparr>total_amount := gui_calculate_total ord'\<rparr>)))"

definition gui_confirm_order :: "gui_ticket order_rec \<Rightarrow> bool \<times> gui_ticket order_rec" where
  "gui_confirm_order ord =
     (if tickets ord = [] then (False, ord)
      else if payment_method ord = None then (False, ord)
      else (True, ord\<lparr>status := CONFIRMED\<rparr>))"

fun gui_any_used :: "gui_ticket list \<Rightarrow> bool" where
  "gui_any_used [] = False"
| "gui_any_used (t # ts) = (if gui_is_used t then True else gui_any_used ts)"

fun gui_any_passed :: "date \<Rightarrow> gui_ticket list \<Rightarrow> bool" where
  "gui_any_passed today [] = False"
| "gui_any_passed today (t # ts) =
     (if date_less (gui_get_event_date t) today then True else gui_any_passed today ts)"

definition gui_cancel_order ::
  "date \<Rightarrow> gui_ticket order_rec \<Rightarrow> bool \<times> gui_ticket order_rec" where
  "gui_cancel_order today ord =
     (if gui_any_used (tickets ord) then (False, ord)
      else if gui_any_passed today (tickets ord) then (False, ord)
      else (True, ord\<lparr>status := CANCELLED\<rparr>))"

text \<open>
  A console ticket read as a GUI ticket of the same class and attributes, and an order
  read likewise; these relate the two copies.
\<close>

fun to_gui :: "ticket \<Rightarrow> gui_ticket" where
  "to_gui (SingleRaceTicket b rname cat) = gui_SingleRaceTicket b rname cat"
| "to_gui (SeasonTicket b yr races dates) = gui_SeasonTicket b yr races dates"

definition order_to_gui :: "ticket order_rec \<Rightarrow> gui_ticket order_rec" where
  "order_to_gui ord =
     \<lparr>order_id = order_id ord, order_date = order_date ord, status = status ord,
      total_amount = total_amount ord, payment_method = payment_method ord,
      tickets = map to_gui (tickets ord), order_user_id = order_user_id ord\<rparr>"

section \<open>Sequences of calls on an order\<close>

text \<open>
  A call of one of the four state-changing methods of \<^verbatim>\<open>Order\<close>; a cancellation carries
  the date on which it is made. \<open>call\<close> gives the order after the call: a call that
  raises leaves the order as it was. \<open>states_after\<close> lists the states an order goes
  through, one after each call of a sequence, and \<open>run_calls\<close> gives the last of them.
\<close>

datatype 't order_call = AddTicket 't | RemoveTicket string | ConfirmOrder | CancelOrder date

fun call :: "ticket order_rec \<Rightarrow> ticket order_call \<Rightarrow> ticket order_rec" where
  "call ord (AddTicket t) = (case add_ticket ord t of Inl e \<Rightarrow> ord | Inr ord' \<Rightarrow> ord')"
| "call ord (RemoveTicket tid) = snd (remove_ticket ord tid)"
| "call ord ConfirmOrder = snd (confirm_order ord)"
| "call ord (CancelOrder today) = snd (cancel_order today ord)"


fun states_after :: "ticket order_rec \<Rightarrow> ticket order_call list \<Rightarrow> ticket order_rec list" where
  "states_after ord [] = []"
| "states_after ord (c # cs) = call ord c # states_after (call ord c) cs"





text \<open>Concrete tickets and orders used as test inputs.\<close>

definition monaco_ticket :: ticket where
  "monaco_ticket =
     SingleRaceTicket_init ''TKT-1'' 200 (Date 2030 6 15) ''Main Grandstand''
       ''Monaco Grand Prix'' PREMIUM"

definition season_pass :: ticket where
  "season_pass =
     SeasonTicket_init ''TKT-2'' 1000 (Date 2030 1 1) ''VIP Lounge'' 2030
       [''Monaco'', ''Silverstone'', ''Monza'', ''Singapore'', ''Abu Dhabi''] None"

definition empty_order :: "ticket order_rec" where
  "empty_order = Order_new ''ORD-1'' (Date 2029 12 1)"

definition filled_order :: "ticket order_rec" where
  "filled_order = empty_order\<lparr>total_amount := 240, tickets := [monaco_ticket]\<rparr>"

definition paid_order :: "ticket order_rec" where
  "paid_order = set_payment_method filled_order (Some CREDIT_CARD)"

definition confirmed_order :: "ticket order_rec" where
  "confirmed_order = paid_order\<lparr>status := CONFIRMED\<rparr>"

definition cancelled_order :: "ticket order_rec" where
  "cancelled_order = paid_order\<lparr>status := CANCELLED\<rparr>"

definition stale_order :: "ticket order_rec" where
  "stale_order = Order_init ''ORD-2'' (Date 2029 12 1) PENDING 50 None"

definition gui_plain_ticket :: gui_ticket where
  "gui_plain_ticket = gui_Ticket (Ticket_init ''TKT-3'' 120 (Date 2030 6 15) ''Paddock'')"

definition gui_confirmed_order :: "gui_ticket order_rec" where
  "gui_confirmed_order =
     \<lparr>order_id = ''ORD-1'', order_date = Date 2029 12 1, status = CONFIRMED,
      total_amount = 120, payment_method = Some DEBIT_CARD, tickets = [gui_plain_ticket],
      order_user_id = Some ''alice''\<rparr>"

definition gui_cancelled_order :: "gui_ticket order_rec" where
  "gui_cancelled_order = gui_confirmed_order\<lparr>status := CANCELLED\<rparr>"

definition gui_pending_order :: "gui_ticket order_rec" where
  "gui_pending_order = gui_confirmed_order\<lparr>status := PENDING\<rparr>"

definition gui_empty_order :: "gui_ticket order_rec" where
  "gui_empty_order = Order_new ''ORD-3'' (Date 2029 12 1)"

section \<open>Users and admins (grand\_prix\_classes.py)\<close>

text \<open>
  The private attributes of \<^verbatim>\<open>User\<close> (lines 191-198) and, extending them, of \<^verbatim>\<open>Admin\<close>
  (lines 256-262). A user's order history is a list of references to \<^verbatim>\<open>Order\<close> objects,
  kept here as their ids. The GUI file repeats both classes word for word (lines 174-283).
\<close>

record user_rec =
  user_id :: string
  username :: string
  password :: string
  email :: string
  phone_number :: "string option"
  orders :: "string list"

record admin_rec = user_rec +
  admin_level :: int
  department :: string

text \<open>A value stored in the user table is an instance of \<^verbatim>\<open>User\<close> or of \<^verbatim>\<open>Admin\<close>.\<close>

datatype account = User user_rec | Admin admin_rec

definition User_init :: "string \<Rightarrow> string \<Rightarrow> string \<Rightarrow> string \<Rightarrow> string option \<Rightarrow> user_rec" where
  "User_init uid uname pw em ph =
     \<lparr>user_id = uid, username = uname, password = pw, email = em, phone_number = ph,
      orders = []\<rparr>"

definition Admin_init ::
  "string \<Rightarrow> string \<Rightarrow> string \<Rightarrow> string \<Rightarrow> int \<Rightarrow> string \<Rightarrow> string option \<Rightarrow> admin_rec" where
  "Admin_init uid uname pw em lvl dept ph =
     \<lparr>user_id = uid, username = uname, password = pw, email = em, phone_number = ph,
      orders = [], admin_level = lvl, department = dept\<rparr>"

text \<open>
  The validating setters (lines 216-229 and 268-272). \<^verbatim>\<open>len(password)\<close> is the length of
  the string.
\<close>

definition set_password :: "'a user_rec_scheme \<Rightarrow> string \<Rightarrow> error + 'a user_rec_scheme" where
  "set_password u pw =
     (if length pw < 6 then Inl (ValueError ''Password must be at least 6 characters long'')
      else Inr (u\<lparr>password := pw\<rparr>))"

definition set_email :: "'a user_rec_scheme \<Rightarrow> string \<Rightarrow> error + 'a user_rec_scheme" where
  "set_email u em =
     (if \<not> List.member em (CHR ''@'') then Inl (ValueError ''Invalid email format'')
      else Inr (u\<lparr>email := em\<rparr>))"

definition set_admin_level :: "admin_rec \<Rightarrow> int \<Rightarrow> error + admin_rec" where
  "set_admin_level a lvl =
     (if lvl < 1 \<or> lvl > 3 then Inl (ValueError ''Admin level must be between 1 and 3'')
      else Inr (a\<lparr>admin_level := lvl\<rparr>))"

definition verify_password :: "'a user_rec_scheme \<Rightarrow> string \<Rightarrow> bool" where
  "verify_password u pw = (password u = pw)"

text \<open>
  The keyword arguments of \<^verbatim>\<open>Admin.create_ticket\<close>: each one is given or not. The
  factory itself (lines 281-313); the creator it stamps on the ticket is the admin.
\<close>

record ticket_kwargs =
  kw_race_name :: "string option"
  kw_race_category :: "RaceCategory option"
  kw_season_year :: "int option"
  kw_included_races :: "string list option"
  kw_race_dates :: "date list option"

definition no_kwargs :: ticket_kwargs where
  "no_kwargs =
     \<lparr>kw_race_name = None, kw_race_category = None, kw_season_year = None,
      kw_included_races = None, kw_race_dates = None\<rparr>"

definition create_ticket ::
  "admin_rec \<Rightarrow> string \<Rightarrow> string \<Rightarrow> real \<Rightarrow> date \<Rightarrow> string \<Rightarrow> ticket_kwargs \<Rightarrow> error + ticket" where
  "create_ticket self ticket_type tid p d v kwargs =
     (if ticket_type = ''SingleRace'' then
        (let rname = (case kw_race_name kwargs of None \<Rightarrow> [] | Some n \<Rightarrow> n) in
         if rname = [] then Inl (ValueError ''Race name is required for SingleRaceTicket'')
         else
           let cat = (case kw_race_category kwargs of None \<Rightarrow> STANDARD | Some c \<Rightarrow> c);
               ticket = SingleRaceTicket_init tid p d v rname cat
           in Inr (set_created_by ticket (Some (username self))))
      else if ticket_type = ''Season'' then
        (let yr = (case kw_season_year kwargs of None \<Rightarrow> year d | Some y \<Rightarrow> y);
             races = (case kw_included_races kwargs of None \<Rightarrow> [] | Some rs \<Rightarrow> rs);
             dates = (case kw_race_dates kwargs of None \<Rightarrow> [] | Some ds \<Rightarrow> ds);
             ticket = SeasonTicket_init tid p d v yr races (Some dates)
         in Inr (set_created_by ticket (Some (username self))))
      else Inl (ValueError (''Invalid ticket type: '' @ ticket_type)))"

section \<open>The booking system and its snapshot files\<close>

text \<open>
  The four dictionaries of \<^verbatim>\<open>BookingSystem\<close> (lines 457-460) are association lists in
  insertion order, as Python dictionaries are: \<open>map_of\<close> looks a key up and
  \<open>AList.update\<close> is the assignment \<^verbatim>\<open>d[k] = v\<close>. The record is polymorphic in the ticket
  type, as orders are.
\<close>

record 't booking_system =
  bs_name :: string
  bs_version :: string
  bs_users :: "(string \<times> account) list"
  bs_admins :: "(string \<times> account) list"
  bs_tickets :: "(string \<times> 't) list"
  bs_orders :: "(string \<times> 't order_rec) list"

text \<open>
  The data directory. A snapshot file is absent, or cannot be unpickled (so that
  \<^verbatim>\<open>pickle.load\<close> raises), or holds a dictionary. When the directory is not writable,
  opening a file for writing raises. The log file is not modelled: \<^verbatim>\<open>_write_log\<close> catches
  every exception of its own and touches nothing else.
\<close>

datatype 'a snapshot_file = Missing | Unreadable | Snapshot 'a

record 't disk =
  users_pkl :: "(string \<times> account) list snapshot_file"
  admins_pkl :: "(string \<times> account) list snapshot_file"
  tickets_pkl :: "(string \<times> 't) list snapshot_file"
  orders_pkl :: "(string \<times> 't order_rec) list snapshot_file"
  writable :: bool

definition has_key :: "('k \<times> 'v) list \<Rightarrow> 'k \<Rightarrow> bool" where
  "has_key al k = (map_of al k \<noteq> None)"

definition holds_key :: "('k \<times> 'v) list snapshot_file \<Rightarrow> 'k \<Rightarrow> bool" where
  "holds_key f k = (case f of Snapshot al \<Rightarrow> has_key al k | Missing \<Rightarrow> False | Unreadable \<Rightarrow> False)"

definition already_exists :: "string \<Rightarrow> error" where
  "already_exists uname = ValueError (''Username '' @ [CHR 0x27] @ uname @ [CHR 0x27] @ '' already exists'')"

text \<open>\<^verbatim>\<open>save_data\<close> (lines 484-507): an error is caught and turns into the result False.\<close>

definition save_data :: "ticket booking_system \<Rightarrow> ticket disk \<Rightarrow> bool \<times> ticket disk" where
  "save_data bs d =
     (if writable d then
        (True, d\<lparr>users_pkl := Snapshot (bs_users bs), admins_pkl := Snapshot (bs_admins bs),
                 tickets_pkl := Snapshot (bs_tickets bs), orders_pkl := Snapshot (bs_orders bs)\<rparr>)
      else (False, d))"

text \<open>
  \<^verbatim>\<open>create_user\<close> (lines 583-598) and \<^verbatim>\<open>create_admin\<close> (lines 600-617). Each returns the
  new account with the system and the disk after the call; when it raises, nothing has
  changed.
\<close>

definition create_user ::
  "ticket booking_system \<Rightarrow> ticket disk \<Rightarrow> string \<Rightarrow> string \<Rightarrow> string \<Rightarrow> string \<Rightarrow> string option
     \<Rightarrow> error + (account \<times> ticket booking_system \<times> ticket disk)" where
  "create_user bs d uid uname pw em ph =
     (if has_key (bs_users bs) uname then Inl (already_exists uname)
      else
        let user = User (User_init uid uname pw em ph);
            bs' = bs\<lparr>bs_users := AList.update uname user (bs_users bs)\<rparr>
        in Inr (user, bs', snd (save_data bs' d)))"

definition create_admin ::
  "ticket booking_system \<Rightarrow> ticket disk \<Rightarrow> string \<Rightarrow> string \<Rightarrow> string \<Rightarrow> string \<Rightarrow> int \<Rightarrow> string
     \<Rightarrow> string option \<Rightarrow> error + (account \<times> ticket booking_system \<times> ticket disk)" where
  "create_admin bs d uid uname pw em lvl dept ph =
     (if has_key (bs_users bs) uname then Inl (already_exists uname)
      else
        let admin = Admin (Admin_init uid uname pw em lvl dept ph);
            bs' = bs\<lparr>bs_users := AList.update uname admin (bs_users bs),
                     bs_admins := AList.update uname admin (bs_admins bs)\<rparr>
        in Inr (admin, bs', snd (save_data bs' d)))"

text \<open>
  \<^verbatim>\<open>load_data\<close> (lines 509-555), one function for each of its four blocks. A block
  gives \<open>None\<close> when it raises, and then nothing of it has taken effect; \<^verbatim>\<open>load_data\<close>
  catches the exception and returns False with what the earlier blocks did. The block for
  the admins creates the default admin when there is no admins file, which saves all four
  tables, those for tickets and orders before they are loaded.
\<close>

definition load_users :: "ticket booking_system \<Rightarrow> ticket disk \<Rightarrow> ticket booking_system option" where
  "load_users bs d =
     (case users_pkl d of
        Missing \<Rightarrow> Some bs
      | Unreadable \<Rightarrow> None
      | Snapshot us \<Rightarrow> Some (bs\<lparr>bs_users := us\<rparr>))"

definition load_admins ::
  "ticket booking_system \<Rightarrow> ticket disk \<Rightarrow> (ticket booking_system \<times> ticket disk) option" where
  "load_admins bs d =
     (case admins_pkl d of
        Snapshot ads \<Rightarrow> Some (bs\<lparr>bs_admins := ads\<rparr>, d)
      | Unreadable \<Rightarrow> None
      | Missing \<Rightarrow>
          if bs_admins bs = [] then
            (case create_admin bs d ''ADM-001'' ''admin'' ''admin123'' ''admin@grandprix.com'' 3
                    ''System Administration'' None of
               Inl e \<Rightarrow> None
             | Inr (admin, bs', d') \<Rightarrow> Some (bs', d'))
          else Some (bs, d))"

definition load_tickets :: "ticket booking_system \<Rightarrow> ticket disk \<Rightarrow> ticket booking_system option" where
  "load_tickets bs d =
     (case tickets_pkl d of
        Missing \<Rightarrow> Some bs
      | Unreadable \<Rightarrow> None
      | Snapshot ts \<Rightarrow> Some (bs\<lparr>bs_tickets := ts\<rparr>))"

definition load_orders :: "ticket booking_system \<Rightarrow> ticket disk \<Rightarrow> ticket booking_system option" where
  "load_orders bs d =
     (case orders_pkl d of
        Missing \<Rightarrow> Some bs
      | Unreadable \<Rightarrow> None
      | Snapshot os \<Rightarrow> Some (bs\<lparr>bs_orders := os\<rparr>))"

definition load_data ::
  "ticket booking_system \<Rightarrow> ticket disk \<Rightarrow> bool \<times> ticket booking_system \<times> ticket disk" where
  "load_data bs d =
     (case load_users bs d of
        None \<Rightarrow> (False, bs, d)
      | Some bs1 \<Rightarrow>
     (case load_admins bs1 d of
        None \<Rightarrow> (False, bs1, d)
      | Some (bs2, d2) \<Rightarrow>
     (case load_tickets bs2 d2 of
        None \<Rightarrow> (False, bs2, d2)
      | Some bs3 \<Rightarrow>
     (case load_orders bs3 d2 of
        None \<Rightarrow> (False, bs3, d2)
      | Some bs4 \<Rightarrow> (True, bs4, d2)))))"

text \<open>
  The constructor (lines 449-468): empty tables, then \<^verbatim>\<open>load_data\<close>, whose result it
  drops. It gives the new system and the disk it leaves. The data directory is the disk
  given; a directory that the constructor has to make is one with no file.
\<close>

definition BookingSystem_init ::
  "string \<Rightarrow> string \<Rightarrow> ticket disk \<Rightarrow> ticket booking_system \<times> ticket disk" where
  "BookingSystem_init nm ver d =
     snd (load_data \<lparr>bs_name = nm, bs_version = ver, bs_users = [], bs_admins = [],
                     bs_tickets = [], bs_orders = []\<rparr> d)"

section \<open>The booking system of the GUI copy (grand\_prix\_admin\_gui.py)\<close>

text \<open>
  The GUI's \<^verbatim>\<open>BookingSystem\<close> (lines 400-430) has two more tables, the catalogues of
  races and seasons (their entries are the dictionaries of lines 434-497), and the table
  \<^verbatim>\<open>_last_mod_times\<close>. Its data directory has two more files; every file has a
  modification time, and a file written gets the time of the disk's clock.
\<close>

record race_details =
  rd_name :: string
  rd_date :: date
  rd_venue :: string
  rd_price :: real
  rd_category :: RaceCategory

record season_details =
  sd_year :: int
  sd_name :: string
  sd_start_date :: date
  sd_end_date :: date
  sd_races :: "string list"
  sd_race_names :: "string list"
  sd_race_dates :: "date list"
  sd_price :: real

record gui_booking_system = "gui_ticket booking_system" +
  bs_races :: "(string \<times> race_details) list"
  bs_seasons :: "(string \<times> season_details) list"
  last_mod_times :: "(string \<times> real) list"

record gui_disk = "gui_ticket disk" +
  races_pkl :: "(string \<times> race_details) list snapshot_file"
  seasons_pkl :: "(string \<times> season_details) list snapshot_file"
  mtime :: "string \<Rightarrow> real"
  clock :: real

definition snapshot_names :: "string list" where
  "snapshot_names =
     [''users.pkl'', ''admins.pkl'', ''tickets.pkl'', ''orders.pkl'', ''races.pkl'',
      ''seasons.pkl'']"

text \<open>\<^verbatim>\<open>save_data\<close> (lines 525-556) and \<^verbatim>\<open>create_admin\<close> (lines 667-681).\<close>

definition gui_save_data :: "gui_booking_system \<Rightarrow> gui_disk \<Rightarrow> bool \<times> gui_disk" where
  "gui_save_data bs d =
     (if writable d then
        (True, d\<lparr>users_pkl := Snapshot (bs_users bs), admins_pkl := Snapshot (bs_admins bs),
                 tickets_pkl := Snapshot (bs_tickets bs), orders_pkl := Snapshot (bs_orders bs),
                 races_pkl := Snapshot (bs_races bs), seasons_pkl := Snapshot (bs_seasons bs),
                 mtime := (\<lambda>f. if List.member snapshot_names f then clock d else mtime d f)\<rparr>)
      else (False, d))"

definition gui_create_admin ::
  "gui_booking_system \<Rightarrow> gui_disk \<Rightarrow> string \<Rightarrow> string \<Rightarrow> string \<Rightarrow> string \<Rightarrow> int \<Rightarrow> string
     \<Rightarrow> string option \<Rightarrow> error + (account \<times> gui_booking_system \<times> gui_disk)" where
  "gui_create_admin bs d uid uname pw em lvl dept ph =
     (if has_key (bs_users bs) uname then Inl (already_exists uname)
      else
        let admin = Admin (Admin_init uid uname pw em lvl dept ph);
            bs' = bs\<lparr>bs_users := AList.update uname admin (bs_users bs),
                     bs_admins := AList.update uname admin (bs_admins bs)\<rparr>
        in Inr (admin, bs', snd (gui_save_data bs' d)))"

text \<open>
  \<^verbatim>\<open>load_data\<close> (lines 558-627). A file is reloaded when it exists and its modification
  time is later than the time recorded for it at the last load, 0 when there is none
  (lines 576-581); \<open>due\<close> is the file as the loop meets it, a file that is passed over
  counting as missing.
\<close>

definition modified :: "gui_disk \<Rightarrow> (string \<times> real) list \<Rightarrow> string \<Rightarrow> bool" where
  "modified d lm fname = (mtime d fname > (case map_of lm fname of None \<Rightarrow> 0 | Some t \<Rightarrow> t))"

definition due ::
  "gui_disk \<Rightarrow> (string \<times> real) list \<Rightarrow> string \<Rightarrow> 'a snapshot_file \<Rightarrow> 'a snapshot_file" where
  "due d lm fname f =
     (case f of
        Missing \<Rightarrow> Missing
      | Unreadable \<Rightarrow> if modified d lm fname then Unreadable else Missing
      | Snapshot data \<Rightarrow> if modified d lm fname then Snapshot data else Missing)"

definition loaded_at :: "gui_disk \<Rightarrow> string \<Rightarrow> (string \<times> real) list \<Rightarrow> (string \<times> real) list" where
  "loaded_at d fname lm = AList.update fname (mtime d fname) lm"

text \<open>
  The loop body for \<^verbatim>\<open>users.pkl\<close> (lines 587-594): the user table takes the loaded
  dictionary and the admin table is rebuilt, from the usernames it had, out of the new
  user table. As before, \<open>None\<close> is an exception raised by \<^verbatim>\<open>pickle.load\<close>.
\<close>

definition gui_load_users :: "gui_booking_system \<Rightarrow> gui_disk \<Rightarrow> gui_booking_system option" where
  "gui_load_users bs d =
     (case due d (last_mod_times bs) ''users.pkl'' (users_pkl d) of
        Missing \<Rightarrow> Some bs
      | Unreadable \<Rightarrow> None
      | Snapshot data \<Rightarrow>
          (let admin_usernames = map fst (bs_admins bs) in
           Some (bs\<lparr>bs_users := data,
                    bs_admins :=
                      List.map_filter
                        (\<lambda>u. case map_of data u of None \<Rightarrow> None | Some a \<Rightarrow> Some (u, a))
                        admin_usernames,
                    last_mod_times := loaded_at d ''users.pkl'' (last_mod_times bs)\<rparr>)))"

text \<open>
  The loop body for \<^verbatim>\<open>admins.pkl\<close> (lines 595-601). An empty admin table takes the loaded
  dictionary. A table that is not empty is handled by the last branch, which clears and
  fills the dictionary object listed in \<^verbatim>\<open>files_to_check\<close> when the call began: that is
  the admin table, unless the body for \<^verbatim>\<open>users.pkl\<close> has run in this call (\<open>rebound\<close>)
  and bound \<^verbatim>\<open>self.__admins\<close> to a new dictionary, which the branch then leaves alone.
\<close>

definition gui_load_admins ::
  "bool \<Rightarrow> gui_booking_system \<Rightarrow> gui_disk \<Rightarrow> gui_booking_system option" where
  "gui_load_admins rebound bs d =
     (case due d (last_mod_times bs) ''admins.pkl'' (admins_pkl d) of
        Missing \<Rightarrow> Some bs
      | Unreadable \<Rightarrow> None
      | Snapshot data \<Rightarrow>
          Some (bs\<lparr>bs_admins :=
                      (if bs_admins bs = [] then data
                       else if rebound then bs_admins bs
                       else data),
                    last_mod_times := loaded_at d ''admins.pkl'' (last_mod_times bs)\<rparr>))"

text \<open>The loop bodies for the other four files (lines 598-601).\<close>

definition gui_load_tickets :: "gui_booking_system \<Rightarrow> gui_disk \<Rightarrow> gui_booking_system option" where
  "gui_load_tickets bs d =
     (case due d (last_mod_times bs) ''tickets.pkl'' (tickets_pkl d) of
        Missing \<Rightarrow> Some bs
      | Unreadable \<Rightarrow> None
      | Snapshot data \<Rightarrow>
          Some (bs\<lparr>bs_tickets := data,
                    last_mod_times := loaded_at d ''tickets.pkl'' (last_mod_times bs)\<rparr>))"

definition gui_load_orders :: "gui_booking_system \<Rightarrow> gui_disk \<Rightarrow> gui_booking_system option" where
  "gui_load_orders bs d =
     (case due d (last_mod_times bs) ''orders.pkl'' (orders_pkl d) of
        Missing \<Rightarrow> Some bs
      | Unreadable \<Rightarrow> None
      | Snapshot data \<Rightarrow>
          Some (bs\<lparr>bs_orders := data,
                    last_mod_times := loaded_at d ''orders.pkl'' (last_mod_times bs)\<rparr>))"

definition gui_load_races :: "gui_booking_system \<Rightarrow> gui_disk \<Rightarrow> gui_booking_system option" where
  "gui_load_races bs d =
     (case due d (last_mod_times bs) ''races.pkl'' (races_pkl d) of
        Missing \<Rightarrow> Some bs
      | Unreadable \<Rightarrow> None
      | Snapshot data \<Rightarrow>
          Some (bs\<lparr>bs_races := data,
                    last_mod_times := loaded_at d ''races.pkl'' (last_mod_times bs)\<rparr>))"

definition gui_load_seasons :: "gui_booking_system \<Rightarrow> gui_disk \<Rightarrow> gui_booking_system option" where
  "gui_load_seasons bs d =
     (case due d (last_mod_times bs) ''seasons.pkl'' (seasons_pkl d) of
        Missing \<Rightarrow> Some bs
      | Unreadable \<Rightarrow> None
      | Snapshot data \<Rightarrow>
          Some (bs\<lparr>bs_seasons := data,
                    last_mod_times := loaded_at d ''seasons.pkl'' (last_mod_times bs)\<rparr>))"

text \<open>
  What follows the loop (lines 608-620): the default admin is created when the admin
  table is empty and the username \<^verbatim>\<open>admin\<close> is free.
\<close>

definition gui_default_admin ::
  "gui_booking_system \<Rightarrow> gui_disk \<Rightarrow> bool \<times> gui_booking_system \<times> gui_disk" where
  "gui_default_admin bs d =
     (if bs_admins bs = [] then
        if \<not> has_key (bs_users bs) ''admin'' then
          (case gui_create_admin bs d ''ADM-001'' ''admin'' ''admin123'' ''admin@grandprix.com'' 3
                  ''System Administration'' None of
             Inl e \<Rightarrow> (False, bs, d)
           | Inr (admin, bs', d') \<Rightarrow> (True, bs', d'))
        else (True, bs, d)
      else (True, bs, d))"

definition gui_load_data ::
  "gui_booking_system \<Rightarrow> gui_disk \<Rightarrow> bool \<times> gui_booking_system \<times> gui_disk" where
  "gui_load_data bs d =
     (case gui_load_users bs d of
        None \<Rightarrow> (False, bs, d)
      | Some bs1 \<Rightarrow>
     (case gui_load_admins
             (due d (last_mod_times bs) ''users.pkl'' (users_pkl d) \<noteq> Missing) bs1 d of
        None \<Rightarrow> (False, bs1, d)
      | Some bs2 \<Rightarrow>
     (case gui_load_tickets bs2 d of
        None \<Rightarrow> (False, bs2, d)
      | Some bs3 \<Rightarrow>
     (case gui_load_orders bs3 d of
        None \<Rightarrow> (False, bs3, d)
      | Some bs4 \<Rightarrow>
     (case gui_load_races bs4 d of
        None \<Rightarrow> (False, bs4, d)
      | Some bs5 \<Rightarrow>
     (case gui_load_seasons bs5 d of
        None \<Rightarrow> (False, bs5, d)
      | Some bs6 \<Rightarrow> gui_default_admin bs6 d))))))"

text \<open>
  Dates a number of days ahead. \<^verbatim>\<open>date + timedelta(days=n)\<close> is the date \<open>n\<close> days on
  in the Gregorian calendar, and raises \<^verbatim>\<open>OverflowError\<close> when that date lies after the
  year 9999.
\<close>

definition leap_year :: "int \<Rightarrow> bool" where
  "leap_year y = (y mod 4 = 0 \<and> (y mod 400 = 0 \<or> y mod 100 \<noteq> 0))"

definition days_in_month :: "int \<Rightarrow> nat \<Rightarrow> nat" where
  "days_in_month y m =
     (if m = 2 then (if leap_year y then 29 else 28)
      else if m = 4 \<or> m = 6 \<or> m = 9 \<or> m = 11 then 30
      else 31)"

fun next_day :: "date \<Rightarrow> date" where
  "next_day (Date y m d) =
     (if d < days_in_month y m then Date y m (d + 1)
      else if m < 12 then Date y (m + 1) 1
      else Date (y + 1) 1 1)"

fun plus_days :: "date \<Rightarrow> nat \<Rightarrow> date" where
  "plus_days d 0 = d"
| "plus_days d (Suc n) = plus_days (next_day d) n"

definition date_plus :: "date \<Rightarrow> nat \<Rightarrow> date option" where
  "date_plus d n = (if year (plus_days d n) > 9999 then None else Some (plus_days d n))"

text \<open>The decimal digits of a number, for the f-string of line 489.\<close>

fun str_nat :: "nat \<Rightarrow> string" where
  "str_nat n =
     (if n < 10 then [''0123456789'' ! n]
      else str_nat (n div 10) @ [''0123456789'' ! (n mod 10)])"

definition str_int :: "int \<Rightarrow> string" where
  "str_int i = (if i < 0 then ''-'' @ str_nat (nat (- i)) else str_nat (nat i))"

text \<open>
  The errors that leave the constructor: the two seeding methods open their files
  outside any \<^verbatim>\<open>try\<close>, and build their dates before that.
\<close>

datatype startup_error = OSError | OverflowError

text \<open>
  \<^verbatim>\<open>_create_sample_races\<close> (lines 432-476): the dictionary of the five sample races is
  built, bound to the races table and written to \<^verbatim>\<open>races.pkl\<close>. The value of
  \<^verbatim>\<open>date.today()\<close> is an argument.
\<close>

definition sample_race :: "string \<Rightarrow> date \<Rightarrow> string \<Rightarrow> real \<Rightarrow> RaceCategory \<Rightarrow> race_details" where
  "sample_race nm dt vn pr cat =
     \<lparr>rd_name = nm, rd_date = dt, rd_venue = vn, rd_price = pr, rd_category = cat\<rparr>"

definition create_sample_races ::
  "date \<Rightarrow> gui_booking_system \<Rightarrow> gui_disk \<Rightarrow> startup_error + (gui_booking_system \<times> gui_disk)" where
  "create_sample_races today bs d =
     (case date_plus today 30 of None \<Rightarrow> Inl OverflowError | Some d1 \<Rightarrow>
     (case date_plus today 60 of None \<Rightarrow> Inl OverflowError | Some d2 \<Rightarrow>
     (case date_plus today 90 of None \<Rightarrow> Inl OverflowError | Some d3 \<Rightarrow>
     (case date_plus today 120 of None \<Rightarrow> Inl OverflowError | Some d4 \<Rightarrow>
     (case date_plus today 150 of None \<Rightarrow> Inl OverflowError | Some d5 \<Rightarrow>
        (let races =
               [(''R001'', sample_race ''Monaco Grand Prix'' d1 ''Circuit de Monaco'' 300 PREMIUM),
                (''R002'', sample_race ''British Grand Prix'' d2 ''Silverstone Circuit'' 250
                   STANDARD),
                (''R003'', sample_race ''Italian Grand Prix'' d3 ''Monza Circuit'' 200 ECONOMY),
                (''R004'', sample_race ''Abu Dhabi Grand Prix'' d4 ''Yas Marina Circuit'' 280
                   PREMIUM),
                (''R005'', sample_race ''Singapore Grand Prix'' d5 ''Marina Bay Street Circuit''
                   270 STANDARD)];
             bs' = bs\<lparr>bs_races := races\<rparr>
         in if writable d then
              Inr (bs', d\<lparr>races_pkl := Snapshot races,
                          mtime := (mtime d)(''races.pkl'' := clock d)\<rparr>)
            else Inl OSError))))))"

text \<open>
  \<^verbatim>\<open>_create_sample_seasons\<close> (lines 478-503): one season over the races of the races
  table, bound to the seasons table and written to \<^verbatim>\<open>seasons.pkl\<close>.
\<close>

definition create_sample_seasons ::
  "date \<Rightarrow> gui_booking_system \<Rightarrow> gui_disk \<Rightarrow> startup_error + (gui_booking_system \<times> gui_disk)" where
  "create_sample_seasons today bs d =
     (let current_year = year today;
          races = map fst (bs_races bs);
          race_names = map (\<lambda>r. rd_name (snd r)) (bs_races bs);
          race_dates = map (\<lambda>r. rd_date (snd r)) (bs_races bs)
      in case date_plus today 180 of
           None \<Rightarrow> Inl OverflowError
         | Some end_date \<Rightarrow>
             (let seasons =
                    [(''S2025'',
                      \<lparr>sd_year = current_year,
                       sd_name = str_int current_year @ '' Grand Prix Season'',
                       sd_start_date = today, sd_end_date = end_date, sd_races = races,
                       sd_race_names = race_names, sd_race_dates = race_dates,
                       sd_price = 1200\<rparr>)];
                  bs' = bs\<lparr>bs_seasons := seasons\<rparr>
              in if writable d then
                   Inr (bs', d\<lparr>seasons_pkl := Snapshot seasons,
                               mtime := (mtime d)(''seasons.pkl'' := clock d)\<rparr>)
                 else Inl OSError))"

text \<open>
  The constructor (lines 401-430): empty tables and no recorded modification time, then
  \<^verbatim>\<open>load_data\<close>, whose result it drops, then the seeding of each catalogue that is still
  empty. It gives the new system and the disk it leaves, or the error it raises. The data
  directory is the disk given.
\<close>

definition gui_blank :: "string \<Rightarrow> string \<Rightarrow> gui_booking_system" where
  "gui_blank nm ver =
     \<lparr>bs_name = nm, bs_version = ver, bs_users = [], bs_admins = [], bs_tickets = [],
      bs_orders = [], bs_races = [], bs_seasons = [], last_mod_times = []\<rparr>"

definition gui_BookingSystem_init ::
  "string \<Rightarrow> string \<Rightarrow> date \<Rightarrow> gui_disk \<Rightarrow> startup_error + (gui_booking_system \<times> gui_disk)" where
  "gui_BookingSystem_init nm ver today d =
     (case snd (gui_load_data (gui_blank nm ver) d) of
        (bs1, d1) \<Rightarrow>
          (case (if bs_races bs1 = [] then create_sample_races today bs1 d1 else Inr (bs1, d1)) of
             Inl e \<Rightarrow> Inl e
           | Inr (bs2, d2) \<Rightarrow>
               if bs_seasons bs2 = [] then create_sample_seasons today bs2 d2
               else Inr (bs2, d2)))"

section \<open>Test inputs for the booking system\<close>

definition default_admin :: account where
  "default_admin =
     Admin (Admin_init ''ADM-001'' ''admin'' ''admin123'' ''admin@grandprix.com'' 3
              ''System Administration'' None)"

definition empty_disk :: "ticket disk" where
  "empty_disk =
     \<lparr>users_pkl = Missing, admins_pkl = Missing, tickets_pkl = Missing, orders_pkl = Missing,
      writable = True\<rparr>"

definition gui_empty_disk :: gui_disk where
  "gui_empty_disk =
     \<lparr>users_pkl = Missing, admins_pkl = Missing, tickets_pkl = Missing, orders_pkl = Missing,
      writable = True, races_pkl = Missing, seasons_pkl = Missing, mtime = (\<lambda>f. 1000),
      clock = 2000\<rparr>"

definition squatter :: account where
  "squatter = User (User_init ''USR-1'' ''admin'' ''secret1'' ''someone@example.com'' None)"

definition demo_system :: "ticket booking_system" where
  "demo_system =
     \<lparr>bs_name = ''Grand Prix Experience'', bs_version = ''1.0'',
      bs_users = [(''admin'', default_admin)], bs_admins = [(''admin'', default_admin)],
      bs_tickets = [], bs_orders = []\<rparr>"

definition demo_disk :: "ticket disk" where
  "demo_disk =
     \<lparr>users_pkl = Snapshot [(''admin'', default_admin)],
      admins_pkl = Snapshot [(''admin'', default_admin)],
      tickets_pkl = Snapshot [], orders_pkl = Snapshot [], writable = True\<rparr>"

definition bob :: account where
  "bob = User (User_init ''USR-2'' ''bob'' ''short'' ''bob@example.com'' None)"

definition ops_admin :: admin_rec where
  "ops_admin =
     Admin_init ''ADM-TEST'' ''test_admin'' ''admin123'' ''admin@example.com'' 2 ''Operations''
       (Some ''555-5678'')"

definition negative_ticket :: ticket where
  "negative_ticket =
     SingleRaceTicket_init ''TKT-9'' (- 5) (Date 2030 6 15) ''Main Grandstand''
       ''Monaco Grand Prix'' STANDARD"

definition taken_disk :: "ticket disk" where
  "taken_disk = empty_disk\<lparr>users_pkl := Snapshot [(''admin'', squatter)]\<rparr>"

definition corrupt_disk :: "ticket disk" where
  "corrupt_disk = empty_disk\<lparr>users_pkl := Unreadable\<rparr>"

definition empty_admins_disk :: "ticket disk" where
  "empty_admins_disk = empty_disk\<lparr>admins_pkl := Snapshot []\<rparr>"

definition readonly_disk :: "ticket disk" where
  "readonly_disk = empty_disk\<lparr>writable := False\<rparr>"

definition gui_taken_disk :: gui_disk where
  "gui_taken_disk = gui_empty_disk\<lparr>users_pkl := Snapshot [(''admin'', squatter)]\<rparr>"

definition gui_corrupt_disk :: gui_disk where
  "gui_corrupt_disk = gui_empty_disk\<lparr>tickets_pkl := Unreadable\<rparr>"

definition gui_empty_admins_disk :: gui_disk where
  "gui_empty_admins_disk = gui_empty_disk\<lparr>admins_pkl := Snapshot []\<rparr>"

definition gui_readonly_disk :: gui_disk where
  "gui_readonly_disk = gui_empty_disk\<lparr>writable := False\<rparr>"

definition stocked_races :: "(string \<times> race_details) list" where
  "stocked_races =
     [(''R001'', sample_race ''Monaco Grand Prix'' (Date 2030 6 15) ''Circuit de Monaco'' 300
         PREMIUM)]"

definition stocked_seasons :: "(string \<times> season_details) list" where
  "stocked_seasons =
     [(''S2025'',
       \<lparr>sd_year = 2030, sd_name = ''2030 Grand Prix Season'', sd_start_date = Date 2030 1 1,
        sd_end_date = Date 2030 6 30, sd_races = [''R001''],
        sd_race_names = [''Monaco Grand Prix''], sd_race_dates = [Date 2030 6 15],
        sd_price = 1200\<rparr>)]"

definition gui_readonly_stocked_disk :: gui_disk where
  "gui_readonly_stocked_disk =
     gui_empty_disk\<lparr>writable := False, races_pkl := Snapshot stocked_races,
                    seasons_pkl := Snapshot stocked_seasons\<rparr>"


definition admins_file_of ::
  "startup_error + (gui_booking_system \<times> gui_disk)
     \<Rightarrow> (string \<times> account) list snapshot_file option" where
  "admins_file_of r = (case r of Inl e \<Rightarrow> None | Inr (bs, d) \<Rightarrow> Some (admins_pkl d))"

section \<open>Pricing\<close>

lemmas test_defs =
  monaco_ticket_def season_pass_def empty_order_def filled_order_def paid_order_def
  confirmed_order_def cancelled_order_def stale_order_def gui_plain_ticket_def
  gui_confirmed_order_def gui_cancelled_order_def gui_pending_order_def gui_empty_order_def
  Order_new_def Order_init_def SingleRaceTicket_init_def SeasonTicket_init_def Ticket_init_def
  set_payment_method_def

lemmas getter_defs =
  get_ticket_id_def get_price_def get_event_date_def is_used_def
  gui_get_ticket_id_def gui_get_event_date_def gui_is_used_def

text \<open>
  C1. A single-race ticket with base price P costs 1.2 P in the Premium category, P in
  Standard and 0.9 P in Economy. A season ticket with base price P and n included races
  costs 0.7 P for n >= 15, 0.8 P for 10 <= n < 15, 0.9 P for 5 <= n < 10 and P for n < 5;
  in particular a season ticket with no race has no discount.
\<close>

theorem calculate_price_tiers:
  "(cat = PREMIUM \<longrightarrow> calculate_price (SingleRaceTicket b rname cat) = 1.2 * price b) \<and>
   (cat = STANDARD \<longrightarrow> calculate_price (SingleRaceTicket b rname cat) = price b) \<and>
   (cat = ECONOMY \<longrightarrow> calculate_price (SingleRaceTicket b rname cat) = 0.9 * price b) \<and>
   (length races \<ge> 15 \<longrightarrow>
      calculate_price (SeasonTicket b yr races dates) = 0.7 * price b) \<and>
   (10 \<le> length races \<and> length races < 15 \<longrightarrow>
      calculate_price (SeasonTicket b yr races dates) = 0.8 * price b) \<and>
   (5 \<le> length races \<and> length races < 10 \<longrightarrow>
      calculate_price (SeasonTicket b yr races dates) = 0.9 * price b) \<and>
   (length races < 5 \<longrightarrow> calculate_price (SeasonTicket b yr races dates) = price b) \<and>
   calculate_price (SeasonTicket b yr [] dates) = price b"
  by (simp add: Let_def)

theorem calculate_price_tiers_witness:
  "calculate_price (SingleRaceTicket (Ticket_init ''T1'' 200 (Date 2025 6 15) ''Main'')
      ''Monaco'' PREMIUM) = 240 \<and>
   calculate_price (SingleRaceTicket (Ticket_init ''T1'' 200 (Date 2025 6 15) ''Main'')
      ''Monaco'' STANDARD) = 200 \<and>
   calculate_price (SingleRaceTicket (Ticket_init ''T1'' 200 (Date 2025 6 15) ''Main'')
      ''Monaco'' ECONOMY) = 180 \<and>
   calculate_price (SeasonTicket (Ticket_init ''T2'' 1000 (Date 2025 1 1) ''VIP'') 2025
      (replicate 15 ''R'') []) = 700 \<and>
   calculate_price (SeasonTicket (Ticket_init ''T2'' 1000 (Date 2025 1 1) ''VIP'') 2025
      (replicate 10 ''R'') []) = 800 \<and>
   calculate_price (SeasonTicket (Ticket_init ''T2'' 1000 (Date 2025 1 1) ''VIP'') 2025
      (replicate 5 ''R'') []) = 900 \<and>
   calculate_price (SeasonTicket (Ticket_init ''T2'' 1000 (Date 2025 1 1) ''VIP'') 2025
      (replicate 4 ''R'') []) = 1000"
  using calculate_price_tiers [of PREMIUM "Ticket_init ''T1'' 200 (Date 2025 6 15) ''Main''"
          "''Monaco''" "replicate 15 ''R''" 2025 "[]"]
        calculate_price_tiers [of STANDARD "Ticket_init ''T1'' 200 (Date 2025 6 15) ''Main''"
          "''Monaco''" "replicate 10 ''R''" 2025 "[]"]
        calculate_price_tiers [of ECONOMY "Ticket_init ''T1'' 200 (Date 2025 6 15) ''Main''"
          "''Monaco''" "replicate 5 ''R''" 2025 "[]"]
        calculate_price_tiers [of ECONOMY "Ticket_init ''T2'' 1000 (Date 2025 1 1) ''VIP''"
          "''Monaco''" "replicate 4 ''R''" 2025 "[]"]
  by (simp add: Ticket_init_def)

section \<open>Confirming and cancelling an order\<close>

text \<open>
  C2. \<^verbatim>\<open>confirm_order\<close> succeeds exactly when the order has at least one ticket and a
  payment method; then it returns success and the order is the same but for its status,
  which is Confirmed. Otherwise it returns failure (a value, not an exception) and the
  order is unchanged. Both copies of the method behave so.
\<close>

theorem confirm_order_cases:
  "(tickets ord \<noteq> [] \<and> payment_method ord \<noteq> None \<longrightarrow>
      confirm_order ord = (True, ord\<lparr>status := CONFIRMED\<rparr>)) \<and>
   (\<not> (tickets ord \<noteq> [] \<and> payment_method ord \<noteq> None) \<longrightarrow>
      confirm_order ord = (False, ord)) \<and>
   (tickets gord \<noteq> [] \<and> payment_method gord \<noteq> None \<longrightarrow>
      gui_confirm_order gord = (True, gord\<lparr>status := CONFIRMED\<rparr>)) \<and>
   (\<not> (tickets gord \<noteq> [] \<and> payment_method gord \<noteq> None) \<longrightarrow>
      gui_confirm_order gord = (False, gord))"
  by (simp add: confirm_order_def gui_confirm_order_def)

theorem confirm_order_cases_witness:
  "tickets paid_order \<noteq> [] \<and> payment_method paid_order \<noteq> None \<and>
   fst (confirm_order paid_order) \<and> status (snd (confirm_order paid_order)) = CONFIRMED \<and>
   tickets empty_order = [] \<and> confirm_order empty_order = (False, empty_order) \<and>
   tickets filled_order \<noteq> [] \<and> payment_method filled_order = None \<and>
   confirm_order filled_order = (False, filled_order) \<and>
   fst (gui_confirm_order gui_pending_order) \<and>
   status (snd (gui_confirm_order gui_pending_order)) = CONFIRMED \<and>
   gui_confirm_order gui_empty_order = (False, gui_empty_order)"
  using confirm_order_cases [of paid_order gui_pending_order]
        confirm_order_cases [of empty_order gui_empty_order]
        confirm_order_cases [of filled_order gui_empty_order]
  by (simp add: test_defs)

lemma any_used_iff: "any_used ts = (\<exists>t\<in>set ts. is_used t)"
  by (induction ts) auto

lemma any_passed_iff: "any_passed today ts = (\<exists>t\<in>set ts. date_less (get_event_date t) today)"
  by (induction ts) auto

lemma gui_any_used_iff: "gui_any_used ts = (\<exists>t\<in>set ts. gui_is_used t)"
  by (induction ts) auto

lemma gui_any_passed_iff:
  "gui_any_passed today ts = (\<exists>t\<in>set ts. date_less (gui_get_event_date t) today)"
  by (induction ts) auto

text \<open>
  C3. \<^verbatim>\<open>cancel_order\<close> returns failure and leaves the order unchanged when some ticket of
  the order is marked used or has an event date strictly before the current date.
  Otherwise, and so for an order without tickets, it returns success and the order is the
  same but for its status, which is Cancelled. Both copies of the method behave so.
\<close>

theorem cancel_order_cases:
  "((\<exists>t\<in>set (tickets ord). is_used t \<or> date_less (get_event_date t) today) \<longrightarrow>
      cancel_order today ord = (False, ord)) \<and>
   (\<not> (\<exists>t\<in>set (tickets ord). is_used t \<or> date_less (get_event_date t) today) \<longrightarrow>
      cancel_order today ord = (True, ord\<lparr>status := CANCELLED\<rparr>)) \<and>
   (tickets ord = [] \<longrightarrow> cancel_order today ord = (True, ord\<lparr>status := CANCELLED\<rparr>)) \<and>
   ((\<exists>t\<in>set (tickets gord). gui_is_used t \<or> date_less (gui_get_event_date t) today) \<longrightarrow>
      gui_cancel_order today gord = (False, gord)) \<and>
   (\<not> (\<exists>t\<in>set (tickets gord). gui_is_used t \<or> date_less (gui_get_event_date t) today) \<longrightarrow>
      gui_cancel_order today gord = (True, gord\<lparr>status := CANCELLED\<rparr>)) \<and>
   (tickets gord = [] \<longrightarrow> gui_cancel_order today gord = (True, gord\<lparr>status := CANCELLED\<rparr>))"
  by (auto simp: cancel_order_def gui_cancel_order_def any_used_iff any_passed_iff
        gui_any_used_iff gui_any_passed_iff)

theorem cancel_order_cases_witness:
  "is_used (set_used monaco_ticket True) \<and>
   cancel_order (Date 2030 1 1) (filled_order\<lparr>tickets := [set_used monaco_ticket True]\<rparr>) =
     (False, filled_order\<lparr>tickets := [set_used monaco_ticket True]\<rparr>) \<and>
   date_less (get_event_date monaco_ticket) (Date 2030 6 16) \<and>
   cancel_order (Date 2030 6 16) filled_order = (False, filled_order) \<and>
   \<not> is_used monaco_ticket \<and> \<not> date_less (get_event_date monaco_ticket) (Date 2030 6 15) \<and>
   cancel_order (Date 2030 6 15) filled_order = (True, filled_order\<lparr>status := CANCELLED\<rparr>) \<and>
   cancel_order (Date 2030 6 15) empty_order = (True, empty_order\<lparr>status := CANCELLED\<rparr>) \<and>
   gui_cancel_order (Date 2030 6 16) gui_pending_order = (False, gui_pending_order) \<and>
   gui_cancel_order (Date 2030 6 15) gui_pending_order =
     (True, gui_pending_order\<lparr>status := CANCELLED\<rparr>) \<and>
   gui_cancel_order (Date 2030 6 15) gui_empty_order =
     (True, gui_empty_order\<lparr>status := CANCELLED\<rparr>)"
  using cancel_order_cases [of "filled_order\<lparr>tickets := [set_used monaco_ticket True]\<rparr>"
          "Date 2030 1 1" gui_pending_order]
        cancel_order_cases [of filled_order "Date 2030 6 16" gui_pending_order]
        cancel_order_cases [of filled_order "Date 2030 6 15" gui_pending_order]
        cancel_order_cases [of empty_order "Date 2030 6 15" gui_empty_order]
  by (simp add: test_defs getter_defs set_used_def)

section \<open>Ticket membership and the total\<close>

text \<open>
  C5. On an order whose status is Confirmed, \<^verbatim>\<open>add_ticket\<close> raises (the model returns
  the error, so nothing of the order has changed) and \<^verbatim>\<open>remove_ticket\<close> returns false
  for every ticket id, with the order, and so its ticket list and its total, unchanged.
  Both copies of the methods behave so.
\<close>

theorem confirmed_order_immutable:
  "status ord = CONFIRMED \<Longrightarrow> status gord = CONFIRMED \<Longrightarrow>
     add_ticket ord t = Inl (ValueError ''Cannot add tickets to a confirmed order'') \<and>
     remove_ticket ord tid = (False, ord) \<and>
     gui_add_ticket gord gt = Inl (ValueError ''Cannot add tickets to a confirmed order'') \<and>
     gui_remove_ticket gord tid = (False, gord)"
  by (simp add: add_ticket_def remove_ticket_def gui_add_ticket_def gui_remove_ticket_def)

theorem confirmed_order_immutable_witness:
  "status confirmed_order = CONFIRMED \<and> status gui_confirmed_order = CONFIRMED \<and>
   add_ticket confirmed_order season_pass =
     Inl (ValueError ''Cannot add tickets to a confirmed order'') \<and>
   remove_ticket confirmed_order ''TKT-1'' = (False, confirmed_order) \<and>
   gui_add_ticket gui_confirmed_order gui_plain_ticket =
     Inl (ValueError ''Cannot add tickets to a confirmed order'') \<and>
   gui_remove_ticket gui_confirmed_order ''TKT-1'' = (False, gui_confirmed_order)"
proof -
  have c: "status confirmed_order = CONFIRMED"
    by (simp add: confirmed_order_def)
  have g: "status gui_confirmed_order = CONFIRMED"
    by (simp add: gui_confirmed_order_def)
  show ?thesis
    using c g confirmed_order_immutable [OF c g, of season_pass "''TKT-1''" gui_plain_ticket]
    by simp
qed


lemma foldl_plus_sum_list: "foldl (+) (a::real) xs = a + sum_list xs"
  by (induction xs arbitrary: a) (simp_all add: add.assoc)

lemma calculate_total_sum: "calculate_total ord = sum_list (map calculate_price (tickets ord))"
  by (simp add: calculate_total_def foldl_plus_sum_list)

lemma add_ticket_total:
  "add_ticket ord t = Inr ord' \<Longrightarrow>
     total_amount ord' = sum_list (map calculate_price (tickets ord'))"
  by (auto simp: add_ticket_def Let_def calculate_total_sum split: if_splits)

lemma remove_ticket_total:
  "remove_ticket ord tid = (True, ord') \<Longrightarrow>
     total_amount ord' = sum_list (map calculate_price (tickets ord'))"
  by (auto simp: remove_ticket_def Let_def calculate_total_sum split: if_splits option.splits)

lemma remove_ticket_refused: "remove_ticket ord tid = (False, ord') \<Longrightarrow> ord' = ord"
  by (auto simp: remove_ticket_def Let_def split: if_splits option.splits)

lemma call_keeps_total:
  assumes inv: "total_amount ord = sum_list (map calculate_price (tickets ord))"
  shows "total_amount (call ord c) = sum_list (map calculate_price (tickets (call ord c)))"
proof (cases c)
  case (AddTicket t)
  with inv show ?thesis
    by (cases "add_ticket ord t") (auto dest: add_ticket_total)
next
  case (RemoveTicket tid)
  obtain r ord' where r: "remove_ticket ord tid = (r, ord')"
    by (cases "remove_ticket ord tid")
  with inv RemoveTicket show ?thesis
    by (cases r) (auto dest: remove_ticket_total remove_ticket_refused)
next
  case ConfirmOrder
  with inv show ?thesis by (simp add: confirm_order_def)
next
  case (CancelOrder today)
  with inv show ?thesis by (simp add: cancel_order_def)
qed

lemma states_after_keep_total:
  "total_amount ord = sum_list (map calculate_price (tickets ord)) \<Longrightarrow>
   s \<in> set (states_after ord cs) \<Longrightarrow>
   total_amount s = sum_list (map calculate_price (tickets s))"
proof (induction cs arbitrary: ord)
  case Nil
  then show ?case by simp
next
  case (Cons c cs)
  from Cons.prems(1)
  have "total_amount (call ord c) = sum_list (map calculate_price (tickets (call ord c)))"
    by (rule call_keeps_total)
  with Cons show ?case by auto
qed

text \<open>
  C4, as stated, fails: \<^verbatim>\<open>remove_ticket\<close> recomputes the total only when it finds the
  ticket. An order built with a total of 50 and no ticket (the constructor takes the total
  as an argument) is Pending; after \<^verbatim>\<open>remove_ticket\<close> of an id it does not hold, its
  total is still 50 while the prices of its tickets sum to 0.
\<close>

theorem total_amount_stale_counterexample:
  "status stale_order \<noteq> CONFIRMED \<and>
   states_after stale_order [RemoveTicket ''TKT-9''] = [stale_order] \<and>
   total_amount stale_order = 50 \<and>
   sum_list (map calculate_price (tickets stale_order)) = 0"
  by (simp add: stale_order_def Order_init_def remove_ticket_def)

text \<open>
  C4, amended. On an order that is not Confirmed, \<^verbatim>\<open>add_ticket\<close> returns and leaves the
  total equal to the sum of \<^verbatim>\<open>calculate_price\<close> over the tickets then in the order; so
  does a \<^verbatim>\<open>remove_ticket\<close> that returns true. A \<^verbatim>\<open>remove_ticket\<close> that returns false
  leaves the order as it was. Hence, on an order whose total equals that sum to begin with
  (a new order, with total 0 and no ticket, is one), the total equals the sum after each
  call of every finite sequence of calls.
\<close>

theorem total_amount_invariant:
  "(status ord \<noteq> CONFIRMED \<longrightarrow>
      (\<exists>ord'. add_ticket ord t = Inr ord' \<and>
         total_amount ord' = sum_list (map calculate_price (tickets ord')))) \<and>
   (fst (remove_ticket ord tid) \<longrightarrow>
      total_amount (snd (remove_ticket ord tid)) =
        sum_list (map calculate_price (tickets (snd (remove_ticket ord tid))))) \<and>
   (\<not> fst (remove_ticket ord tid) \<longrightarrow> snd (remove_ticket ord tid) = ord) \<and>
   (total_amount ord = sum_list (map calculate_price (tickets ord)) \<longrightarrow>
      (\<forall>s\<in>set (states_after ord cs).
         total_amount s = sum_list (map calculate_price (tickets s))))"
proof (intro conjI impI ballI)
  assume "status ord \<noteq> CONFIRMED"
  then obtain ord' where "add_ticket ord t = Inr ord'"
    by (simp add: add_ticket_def Let_def)
  then show "\<exists>ord'. add_ticket ord t = Inr ord' \<and>
         total_amount ord' = sum_list (map calculate_price (tickets ord'))"
    using add_ticket_total by blast
next
  assume "fst (remove_ticket ord tid)"
  then show "total_amount (snd (remove_ticket ord tid)) =
        sum_list (map calculate_price (tickets (snd (remove_ticket ord tid))))"
    using remove_ticket_total [of ord tid "snd (remove_ticket ord tid)"]
    by (cases "remove_ticket ord tid") simp
next
  assume "\<not> fst (remove_ticket ord tid)"
  then show "snd (remove_ticket ord tid) = ord"
    using remove_ticket_refused [of ord tid "snd (remove_ticket ord tid)"]
    by (cases "remove_ticket ord tid") simp
next
  fix s
  assume "total_amount ord = sum_list (map calculate_price (tickets ord))"
    and "s \<in> set (states_after ord cs)"
  then show "total_amount s = sum_list (map calculate_price (tickets s))"
    by (rule states_after_keep_total)
qed

theorem total_amount_invariant_witness:
  "status empty_order \<noteq> CONFIRMED \<and>
   total_amount empty_order = sum_list (map calculate_price (tickets empty_order)) \<and>
   add_ticket empty_order monaco_ticket = Inr filled_order \<and>
   total_amount filled_order = sum_list (map calculate_price (tickets filled_order)) \<and>
   remove_ticket filled_order ''TKT-1'' = (True, empty_order) \<and>
   remove_ticket filled_order ''TKT-9'' = (False, filled_order) \<and>
   states_after empty_order [AddTicket monaco_ticket, RemoveTicket ''TKT-1''] =
     [filled_order, empty_order]"
  using total_amount_invariant [of empty_order monaco_ticket "''TKT-1''"
          "[AddTicket monaco_ticket, RemoveTicket ''TKT-1'']"]
        total_amount_invariant [of filled_order monaco_ticket "''TKT-1''" "[]"]
        total_amount_invariant [of filled_order monaco_ticket "''TKT-9''" "[]"]
  by (simp add: test_defs add_ticket_def remove_ticket_def calculate_total_def
        get_ticket_id_def Let_def)

section \<open>Order status\<close>












section \<open>The two copies agree\<close>

lemma gui_base_to_gui: "gui_base (to_gui t) = base t"
  by (cases t) simp_all

lemma gui_price_to_gui: "gui_calculate_price (to_gui t) = calculate_price t"
  by (cases t) simp_all

lemma gui_total_to_gui: "gui_calculate_total (order_to_gui ord) = calculate_total ord"
  by (simp add: gui_calculate_total_def calculate_total_def order_to_gui_def comp_def
        gui_price_to_gui)

lemma gui_pop_to_gui:
  "gui_pop_ticket tid (map to_gui ts) = map_option (map to_gui) (pop_ticket tid ts)"
  by (induction ts)
     (auto simp: gui_get_ticket_id_def get_ticket_id_def gui_base_to_gui split: option.splits)

lemma gui_any_used_to_gui: "gui_any_used (map to_gui ts) = any_used ts"
  by (induction ts) (auto simp: gui_is_used_def is_used_def gui_base_to_gui)

lemma gui_any_passed_to_gui: "gui_any_passed today (map to_gui ts) = any_passed today ts"
  by (induction ts) (auto simp: gui_get_event_date_def get_event_date_def gui_base_to_gui)

lemma gui_add_to_gui:
  "gui_add_ticket (order_to_gui ord) (to_gui t) = map_sum id order_to_gui (add_ticket ord t)"
  by (simp add: gui_add_ticket_def add_ticket_def Let_def gui_calculate_total_def
        calculate_total_def order_to_gui_def comp_def gui_price_to_gui)

lemma gui_remove_to_gui:
  "gui_remove_ticket (order_to_gui ord) tid = map_prod id order_to_gui (remove_ticket ord tid)"
  by (cases "pop_ticket tid (tickets ord)")
     (simp_all add: gui_remove_ticket_def remove_ticket_def Let_def gui_calculate_total_def
        calculate_total_def order_to_gui_def comp_def gui_price_to_gui gui_pop_to_gui)

lemma gui_confirm_to_gui:
  "gui_confirm_order (order_to_gui ord) = map_prod id order_to_gui (confirm_order ord)"
  by (simp add: gui_confirm_order_def confirm_order_def order_to_gui_def)

lemma gui_cancel_to_gui:
  "gui_cancel_order today (order_to_gui ord) =
     map_prod id order_to_gui (cancel_order today ord)"
  by (simp add: gui_cancel_order_def cancel_order_def order_to_gui_def gui_any_used_to_gui
        gui_any_passed_to_gui)

text \<open>
  C10. On the classes the two files share, the GUI copy computes what the console copy
  computes: a single-race ticket and a season ticket have the same price in both, and on
  an order and arguments of the console copy, read in the GUI copy, each of
  \<^verbatim>\<open>add_ticket\<close>, \<^verbatim>\<open>remove_ticket\<close>, \<^verbatim>\<open>confirm_order\<close> and \<^verbatim>\<open>cancel_order\<close> returns the same
  result (the same error, the same truth value) and leaves the same order.
\<close>

theorem gui_copy_agrees:
  "gui_calculate_price (gui_SingleRaceTicket b rname cat) =
     calculate_price (SingleRaceTicket b rname cat) \<and>
   gui_calculate_price (gui_SeasonTicket b yr races dates) =
     calculate_price (SeasonTicket b yr races dates) \<and>
   gui_add_ticket (order_to_gui ord) (to_gui t) = map_sum id order_to_gui (add_ticket ord t) \<and>
   gui_remove_ticket (order_to_gui ord) tid =
     map_prod id order_to_gui (remove_ticket ord tid) \<and>
   gui_confirm_order (order_to_gui ord) = map_prod id order_to_gui (confirm_order ord) \<and>
   gui_cancel_order today (order_to_gui ord) =
     map_prod id order_to_gui (cancel_order today ord)"
  using gui_add_to_gui [of ord t] gui_remove_to_gui [of ord tid] gui_confirm_to_gui [of ord]
    gui_cancel_to_gui [of today ord]
  by simp

section \<open>Validation in the constructors\<close>

lemmas system_defs =
  default_admin_def empty_disk_def gui_empty_disk_def squatter_def demo_system_def
  demo_disk_def bob_def ops_admin_def negative_ticket_def User_init_def Admin_init_def
  has_key_def holds_key_def already_exists_def no_kwargs_def

lemmas load_defs =
  BookingSystem_init_def load_data_def load_users_def load_admins_def load_tickets_def
  load_orders_def create_admin_def create_user_def save_data_def

text \<open>
  C6 at a concrete input. The system built on an empty data directory holds the default
  admin only. \<^verbatim>\<open>set_password\<close> rejects the five-character password \<^verbatim>\<open>short\<close>, but
  \<^verbatim>\<open>create_user\<close> with that password returns the new user, stores it in the user table
  and saves it: the constructor of \<^verbatim>\<open>User\<close> assigns the password without the setter's
  check.
\<close>

theorem create_user_short_password:
  "BookingSystem_init ''Grand Prix Experience'' ''1.0'' empty_disk = (demo_system, demo_disk) \<and>
   length ''short'' = 5 \<and>
   set_password (User_init ''USR-2'' ''bob'' ''secret1'' ''bob@example.com'' None) ''short'' =
     Inl (ValueError ''Password must be at least 6 characters long'') \<and>
   create_user demo_system demo_disk ''USR-2'' ''bob'' ''short'' ''bob@example.com'' None =
     Inr (bob,
          demo_system\<lparr>bs_users := [(''admin'', default_admin), (''bob'', bob)]\<rparr>,
          demo_disk\<lparr>users_pkl := Snapshot [(''admin'', default_admin), (''bob'', bob)]\<rparr>)"
  by (simp add: load_defs system_defs set_password_def Let_def)

text \<open>\<^verbatim>\<open>create_user\<close> returns a user for every password, as long as the username is free.\<close>

lemma create_user_any_password:
  "\<not> has_key (bs_users bs) uname \<Longrightarrow>
     create_user bs d uid uname pw em ph =
       Inr (User (User_init uid uname pw em ph),
            bs\<lparr>bs_users := AList.update uname (User (User_init uid uname pw em ph)) (bs_users bs)\<rparr>,
            snd (save_data
                  (bs\<lparr>bs_users :=
                         AList.update uname (User (User_init uid uname pw em ph)) (bs_users bs)\<rparr>)
                  d))"
  by (simp add: create_user_def Let_def)

text \<open>
  The setter half of C7 holds: \<^verbatim>\<open>set_price\<close> raises on a negative price, and a price it
  accepts is not negative.
\<close>

lemma set_price_checks:
  "(p < 0 \<longrightarrow> set_price t p = Inl (ValueError ''Price cannot be negative'')) \<and>
   (set_price t p = Inr t' \<longrightarrow> 0 \<le> get_price t')"
  by (cases t) (auto simp: set_price_def get_price_def split: if_splits)

text \<open>
  C7 at a concrete input. The constructor of \<^verbatim>\<open>SingleRaceTicket\<close> called with the price
  -5 gives a ticket whose base price and calculated price are -5, and so does the factory
  \<^verbatim>\<open>Admin.create_ticket\<close>; \<^verbatim>\<open>set_price\<close> with the same price raises.
\<close>

theorem negative_price_ticket:
  "get_price negative_ticket = - 5 \<and>
   calculate_price negative_ticket = - 5 \<and>
   create_ticket ops_admin ''SingleRace'' ''TKT-9'' (- 5) (Date 2030 6 15) ''Main Grandstand''
       (no_kwargs\<lparr>kw_race_name := Some ''Monaco Grand Prix''\<rparr>) =
     Inr (set_created_by negative_ticket (Some ''test_admin'')) \<and>
   get_price (set_created_by negative_ticket (Some ''test_admin'')) = - 5 \<and>
   set_price monaco_ticket (- 5) = Inl (ValueError ''Price cannot be negative'')"
  by (simp add: system_defs create_ticket_def set_created_by_def get_price_def set_price_def
        SingleRaceTicket_init_def Ticket_init_def monaco_ticket_def Let_def)


section \<open>The default admin\<close>

lemmas gui_load_defs =
  gui_load_data_def gui_load_users_def gui_load_admins_def
  gui_load_tickets_def gui_load_orders_def gui_load_races_def gui_load_seasons_def
  gui_default_admin_def gui_create_admin_def gui_save_data_def modified_def due_def
  loaded_at_def gui_blank_def
















lemma year_next_day: "year (next_day d) \<le> year d + 1"
  by (cases d) simp

lemma year_plus_days: "year (plus_days d n) \<le> year d + int n"
proof (induction n arbitrary: d)
  case 0
  then show ?case by simp
next
  case (Suc n)
  from Suc.IH [of "next_day d"] year_next_day [of d] show ?case by simp
qed

lemma date_plus_in_range:
  "year today + 180 \<le> 9999 \<Longrightarrow> n \<le> 180 \<Longrightarrow> date_plus today n = Some (plus_days today n)"
  using year_plus_days [of today n] by (simp add: date_plus_def)

lemma create_sample_races_keeps:
  "create_sample_races today bs d = Inr (bs', d') \<Longrightarrow>
     bs_admins bs' = bs_admins bs \<and> bs_users bs' = bs_users bs \<and>
     admins_pkl d' = admins_pkl d \<and> writable d' = writable d \<and> writable d"
  by (auto simp: create_sample_races_def Let_def split: option.splits if_splits)

lemma create_sample_seasons_keeps:
  "create_sample_seasons today bs d = Inr (bs', d') \<Longrightarrow>
     bs_admins bs' = bs_admins bs \<and> bs_users bs' = bs_users bs \<and>
     admins_pkl d' = admins_pkl d \<and> writable d"
  by (auto simp: create_sample_seasons_def Let_def split: option.splits if_splits)

lemma create_sample_races_returns:
  "year today + 180 \<le> 9999 \<Longrightarrow> writable d \<Longrightarrow>
     \<exists>bs' d'. create_sample_races today bs d = Inr (bs', d')"
  by (simp add: create_sample_races_def Let_def date_plus_in_range)

lemma create_sample_seasons_returns:
  "year today + 180 \<le> 9999 \<Longrightarrow> writable d \<Longrightarrow>
     \<exists>bs' d'. create_sample_seasons today bs d = Inr (bs', d')"
  by (simp add: create_sample_seasons_def Let_def date_plus_in_range)

lemma create_sample_races_refused:
  "year today + 180 \<le> 9999 \<Longrightarrow> \<not> writable d \<Longrightarrow> create_sample_races today bs d = Inl OSError"
  by (simp add: create_sample_races_def Let_def date_plus_in_range)

lemma gui_default_admin_writable:
  "writable (snd (snd (gui_default_admin bs d))) = writable d"
  by (simp add: gui_default_admin_def gui_create_admin_def gui_save_data_def Let_def)

lemma gui_load_data_writable: "writable (snd (snd (gui_load_data bs d))) = writable d"
  by (simp add: gui_load_data_def gui_default_admin_writable split: option.splits)

lemma gui_init_result:
  assumes "gui_BookingSystem_init nm ver today d = Inr (bs, d')"
  shows "bs_admins bs = bs_admins (fst (snd (gui_load_data (gui_blank nm ver) d))) \<and>
         bs_users bs = bs_users (fst (snd (gui_load_data (gui_blank nm ver) d))) \<and>
         admins_pkl d' = admins_pkl (snd (snd (gui_load_data (gui_blank nm ver) d)))"
proof -
  obtain bs1 d1 where l: "snd (gui_load_data (gui_blank nm ver) d) = (bs1, d1)"
    by (cases "snd (gui_load_data (gui_blank nm ver) d)")
  obtain bs2 d2 where r:
      "(if bs_races bs1 = [] then create_sample_races today bs1 d1 else Inr (bs1, d1)) =
         Inr (bs2, d2)"
      and s: "(if bs_seasons bs2 = [] then create_sample_seasons today bs2 d2
               else Inr (bs2, d2)) = Inr (bs, d')"
    using assms l by (auto simp: gui_BookingSystem_init_def split: sum.splits)
  from r have "bs_admins bs2 = bs_admins bs1 \<and> bs_users bs2 = bs_users bs1 \<and>
      admins_pkl d2 = admins_pkl d1"
    by (auto dest: create_sample_races_keeps split: if_splits)
  moreover from s have "bs_admins bs = bs_admins bs2 \<and> bs_users bs = bs_users bs2 \<and>
      admins_pkl d' = admins_pkl d2"
    by (auto dest: create_sample_seasons_keeps split: if_splits)
  ultimately show ?thesis using l by simp
qed

lemma gui_init_returns:
  assumes "writable d" "year today + 180 \<le> 9999"
  shows "\<exists>bs d'. gui_BookingSystem_init nm ver today d = Inr (bs, d')"
proof -
  obtain bs1 d1 where l: "snd (gui_load_data (gui_blank nm ver) d) = (bs1, d1)"
    by (cases "snd (gui_load_data (gui_blank nm ver) d)")
  with assms(1) gui_load_data_writable [of "gui_blank nm ver" d] have w1: "writable d1"
    by simp
  obtain bs2 d2 where r:
      "(if bs_races bs1 = [] then create_sample_races today bs1 d1 else Inr (bs1, d1)) =
         Inr (bs2, d2)"
    using create_sample_races_returns [OF assms(2) w1, of bs1] by (cases "bs_races bs1 = []") auto
  with w1 have w2: "writable d2"
    by (auto dest: create_sample_races_keeps split: if_splits)
  obtain bs3 d3 where s:
      "(if bs_seasons bs2 = [] then create_sample_seasons today bs2 d2 else Inr (bs2, d2)) =
         Inr (bs3, d3)"
    using create_sample_seasons_returns [OF assms(2) w2, of bs2]
    by (cases "bs_seasons bs2 = []") auto
  from l r s show ?thesis
    by (simp add: gui_BookingSystem_init_def)
qed



lemma admins_file_of_init:
  assumes "writable d" "year today + 180 \<le> 9999"
  shows "admins_file_of (gui_BookingSystem_init nm ver today d) =
           Some (admins_pkl (snd (snd (gui_load_data (gui_blank nm ver) d))))"
proof -
  from gui_init_returns [OF assms, of nm ver]
  obtain bs d' where r: "gui_BookingSystem_init nm ver today d = Inr (bs, d')"
    by blast
  from gui_init_result [OF r] r show ?thesis
    by (simp add: admins_file_of_def)
qed


lemma gui_init_refused:
  assumes "\<not> writable d" "year today + 180 \<le> 9999"
    "bs_races (fst (snd (gui_load_data (gui_blank nm ver) d))) = []"
  shows "gui_BookingSystem_init nm ver today d = Inl OSError"
proof -
  obtain bs1 d1 where l: "snd (gui_load_data (gui_blank nm ver) d) = (bs1, d1)"
    by (cases "snd (gui_load_data (gui_blank nm ver) d)")
  with assms(1) gui_load_data_writable [of "gui_blank nm ver" d] have "\<not> writable d1"
    by simp
  from create_sample_races_refused [OF assms(2) this, of bs1] l assms(3) show ?thesis
    by (simp add: gui_BookingSystem_init_def)
qed

lemmas disk_defs =
  default_admin_def empty_disk_def gui_empty_disk_def squatter_def User_init_def Admin_init_def
  has_key_def holds_key_def already_exists_def
  taken_disk_def corrupt_disk_def empty_admins_disk_def readonly_disk_def gui_taken_disk_def
  gui_corrupt_disk_def gui_empty_admins_disk_def gui_readonly_disk_def
  gui_readonly_stocked_disk_def stocked_races_def stocked_seasons_def




lemma gui_readonly_loaded:
  "bs_races (fst (snd (gui_load_data (gui_blank nm ver) gui_readonly_disk))) = []"
  by (simp add: gui_load_defs disk_defs Let_def map_filter_simps)

text \<open>
  On an empty data directory that cannot be written, the GUI's constructor raises: the
  default admin is created in memory, and then \<^verbatim>\<open>_create_sample_races\<close> fails to open
  \<^verbatim>\<open>races.pkl\<close>. No system is constructed.
\<close>

lemma gui_constructor_raises:
  "gui_BookingSystem_init ''Grand Prix Experience'' ''1.0'' (Date 2030 3 14) gui_readonly_disk =
     Inl OSError"
  by (rule gui_init_refused) (simp_all add: gui_readonly_loaded, simp_all add: disk_defs)




end
